theory Spec2Isabelle
  imports Complex_Main "HOL-Library.Sublist" "HOL-Library.AList" "HOL-Library.Word"
begin

section \<open>Data model of the protocol adapter (pkg/localllm)\<close>

text \<open>
  Dynamically typed JSON values (Go's \<open>interface{}\<close> after \<open>json.Unmarshal\<close>).
  A Go \<open>map[string]interface{}\<close> is an association list; on input its keys are
  distinct, and the order of the list is the order in which one run of
  \<open>for k, v := range m\<close> visits the entries (Go leaves that order open).
  A nil slice and a nil map are the empty list.
\<close>

datatype json =
    JNull
  | JBool bool
  | JNum rat
  | JStr string
  | JArr "json list"
  | JObj "(string \<times> json) list"

text \<open>The wire types \<open>functionCall\<close>, \<open>toolCall\<close> and \<open>chatMessage\<close>.\<close>

record functionCall =
  fn_Name :: string
  fn_Arguments :: string

record toolCall =
  tc_ID :: string
  tc_Type :: string
  tc_Function :: functionCall

record chatMessage =
  msg_Role :: string
  msg_Content :: string
  msg_ToolCalls :: "toolCall list"
  msg_ToolCallID :: string

text \<open>
  The fields of the \<open>genai\<close> and \<open>model\<close> request types that the adapter reads.
  Optional pointers are \<open>option\<close>; the elements of \<open>Contents\<close> and \<open>Parts\<close>
  are taken to be non-nil, as the framework builds them.
\<close>

record FunctionCall =
  FunctionCall_ID :: string
  FunctionCall_Name :: string
  FunctionCall_Args :: "(string \<times> json) list"

record FunctionResponse =
  FunctionResponse_ID :: string
  FunctionResponse_Name :: string
  FunctionResponse_Response :: "(string \<times> json) list"

record Part =
  Part_Text :: string
  Part_FunctionCall :: "FunctionCall option"
  Part_FunctionResponse :: "FunctionResponse option"

record Content =
  Content_Role :: string
  Content_Parts :: "Part list"

text \<open>Tool declarations of the request and the wire type \<open>toolDef\<close>. The parameter schema
  of a declaration is the JSON document it marshals to, \<open>None\<close> for a nil pointer.\<close>

record FunctionDeclaration =
  fd_Name :: string
  fd_Description :: string
  fd_Parameters :: "json option"

record Tool =
  FunctionDeclarations :: "FunctionDeclaration list"

record functionDef =
  def_Name :: string
  def_Description :: string
  def_Parameters :: json

record toolDef =
  td_Type :: string
  td_Function :: functionDef

record GenerateContentConfig =
  SystemInstruction :: "Content option"
  Tools :: "Tool list"

record LLMRequest =
  Config :: "GenerateContentConfig option"
  Contents :: "Content list"

text \<open>The anonymous struct collected for every function response of a turn.\<close>

record funcResponse =
  fr_id :: string
  fr_name :: string
  fr_response :: string

text \<open>The three accumulators of the loop over the parts of one turn.\<close>

record turnAcc =
  textContent :: string
  funcCalls :: "toolCall list"
  funcResponses :: "funcResponse list"

text \<open>The response types. Go's \<open>int\<close> is a 64 bit word, \<open>int32\<close> a 32 bit word.\<close>

record usage =
  PromptTokens :: "64 word"
  CompletionTokens :: "64 word"
  TotalTokens :: "64 word"

record choice =
  choice_Index :: "64 word"
  choice_Message :: chatMessage
  choice_FinishReason :: string

record chatResponse =
  chatResponse_ID :: string
  Choices :: "choice list"
  Usage :: usage

record UsageMetadata =
  PromptTokenCount :: "32 word"
  CandidatesTokenCount :: "32 word"
  TotalTokenCount :: "32 word"

record LLMResponse =
  LLMResponse_Content :: "Content option"
  LLMResponse_UsageMetadata :: "UsageMetadata option"

text \<open>The two \<open>genai\<close> constructors the decoder calls.\<close>

definition NewPartFromText :: "string \<Rightarrow> Part" where
  "NewPartFromText t = \<lparr>Part_Text = t, Part_FunctionCall = None, Part_FunctionResponse = None\<rparr>"

definition NewPartFromFunctionCall :: "string \<Rightarrow> (string \<times> json) list \<Rightarrow> Part" where
  "NewPartFromFunctionCall name args =
     \<lparr>Part_Text = [],
      Part_FunctionCall = Some \<lparr>FunctionCall_ID = [], FunctionCall_Name = name,
                                FunctionCall_Args = args\<rparr>,
      Part_FunctionResponse = None\<rparr>"

section \<open>Request construction: \<open>convertToMessages\<close>\<close>

text \<open>
  \<open>json.Marshal\<close> on an argument or response map is a parameter \<open>enc\<close> of the
  model: the adapter keeps whatever text it returns (the error is dropped).
\<close>

type_synonym marshal = "(string \<times> json) list \<Rightarrow> string"

definition systemMessages :: "LLMRequest \<Rightarrow> chatMessage list" where
  "systemMessages req =
     (case Config req of
        None \<Rightarrow> []
      | Some cfg \<Rightarrow>
          (case SystemInstruction cfg of
             None \<Rightarrow> []
           | Some si \<Rightarrow>
               (let sysText = foldl (\<lambda>acc part. if Part_Text part \<noteq> [] then acc @ Part_Text part else acc)
                                [] (Content_Parts si)
                in if sysText \<noteq> []
                   then [\<lparr>msg_Role = ''system'', msg_Content = sysText,
                          msg_ToolCalls = [], msg_ToolCallID = []\<rparr>]
                   else [])))"

definition collectPart :: "marshal \<Rightarrow> turnAcc \<Rightarrow> Part \<Rightarrow> turnAcc" where
  "collectPart enc acc part =
     (let acc1 = (if Part_Text part \<noteq> []
                  then acc\<lparr>textContent := textContent acc @ Part_Text part\<rparr> else acc);
          acc2 = (case Part_FunctionCall part of
                    None \<Rightarrow> acc1
                  | Some fc \<Rightarrow>
                      acc1\<lparr>funcCalls := funcCalls acc1 @
                         [\<lparr>tc_ID = FunctionCall_ID fc, tc_Type = ''function'',
                           tc_Function = \<lparr>fn_Name = FunctionCall_Name fc,
                                           fn_Arguments = enc (FunctionCall_Args fc)\<rparr>\<rparr>]\<rparr>)
      in (case Part_FunctionResponse part of
            None \<Rightarrow> acc2
          | Some fr \<Rightarrow>
              acc2\<lparr>funcResponses := funcResponses acc2 @
                 [\<lparr>fr_id = FunctionResponse_ID fr, fr_name = FunctionResponse_Name fr,
                   fr_response = enc (FunctionResponse_Response fr)\<rparr>]\<rparr>))"

definition collectParts :: "marshal \<Rightarrow> Part list \<Rightarrow> turnAcc" where
  "collectParts enc parts =
     foldl (collectPart enc) \<lparr>textContent = [], funcCalls = [], funcResponses = []\<rparr> parts"

definition wireRole :: "Content \<Rightarrow> string" where
  "wireRole content = (if Content_Role content = ''model'' then ''assistant'' else ''user'')"

definition toolMessage :: "funcResponse \<Rightarrow> chatMessage" where
  "toolMessage fr = \<lparr>msg_Role = ''tool'', msg_Content = fr_response fr,
                      msg_ToolCalls = [], msg_ToolCallID = fr_id fr\<rparr>"

text \<open>The test of the merge branch on the last message built so far.\<close>

definition canMerge :: "chatMessage list \<Rightarrow> string \<Rightarrow> bool" where
  "canMerge messages role =
     (length messages > 0 \<and>
      msg_Role (last messages) = role \<and> msg_ToolCalls (last messages) = [] \<and>
      msg_ToolCallID (last messages) = [])"

text \<open>One iteration of the loop over \<open>req.Contents\<close> in the complete adapter.\<close>

definition addTurn :: "marshal \<Rightarrow> chatMessage list \<Rightarrow> Content \<Rightarrow> chatMessage list" where
  "addTurn enc messages content =
     (let role = wireRole content;
          acc = collectParts enc (Content_Parts content);
          messages1 =
            (if length (funcCalls acc) > 0
             then messages @ [\<lparr>msg_Role = ''assistant'', msg_Content = textContent acc,
                               msg_ToolCalls = funcCalls acc, msg_ToolCallID = []\<rparr>]
             else if textContent acc \<noteq> []
             then (if canMerge messages role
                   then butlast messages @
                        [(last messages)\<lparr>msg_Content :=
                            msg_Content (last messages) @ [CHR 0x0A] @ textContent acc\<rparr>]
                   else messages @ [\<lparr>msg_Role = role, msg_Content = textContent acc,
                                     msg_ToolCalls = [], msg_ToolCallID = []\<rparr>])
             else messages)
      in messages1 @ map toolMessage (funcResponses acc))"

definition buildMessages :: "marshal \<Rightarrow> LLMRequest \<Rightarrow> chatMessage list" where
  "buildMessages enc req = foldl (addTurn enc) (systemMessages req) (Contents req)"

text \<open>The post-processing loop that keeps a user message from following a tool message.\<close>

definition syntheticAssistant :: chatMessage where
  "syntheticAssistant = \<lparr>msg_Role = ''assistant'', msg_Content = ''Action completed.'',
                          msg_ToolCalls = [], msg_ToolCallID = []\<rparr>"

definition repairStep :: "chatMessage list \<Rightarrow> chatMessage \<Rightarrow> chatMessage list" where
  "repairStep finalMessages msg =
     (if msg_Role msg = ''user'' \<and> length finalMessages > 0 \<and>
         msg_Role (last finalMessages) = ''tool''
      then (finalMessages @ [syntheticAssistant]) @ [msg]
      else finalMessages @ [msg])"

definition alternationRepair :: "chatMessage list \<Rightarrow> chatMessage list" where
  "alternationRepair messages = foldl repairStep [] messages"

definition convertToMessages :: "marshal \<Rightarrow> LLMRequest \<Rightarrow> chatMessage list" where
  "convertToMessages enc req = alternationRepair (buildMessages enc req)"

text \<open>
  The earlier adapter of the same package (the second \<open>convertToMessages\<close> of the
  source): the same loop with neither the merge branch nor the repair loop.
\<close>

definition addTurn_simple :: "marshal \<Rightarrow> chatMessage list \<Rightarrow> Content \<Rightarrow> chatMessage list" where
  "addTurn_simple enc messages content =
     (let role = wireRole content;
          acc = collectParts enc (Content_Parts content);
          messages1 =
            (if length (funcCalls acc) > 0
             then messages @ [\<lparr>msg_Role = ''assistant'', msg_Content = textContent acc,
                               msg_ToolCalls = funcCalls acc, msg_ToolCallID = []\<rparr>]
             else if textContent acc \<noteq> []
             then messages @ [\<lparr>msg_Role = role, msg_Content = textContent acc,
                               msg_ToolCalls = [], msg_ToolCallID = []\<rparr>]
             else messages)
      in messages1 @ map toolMessage (funcResponses acc))"

definition convertToMessages_simple :: "marshal \<Rightarrow> LLMRequest \<Rightarrow> chatMessage list" where
  "convertToMessages_simple enc req = foldl (addTurn_simple enc) (systemMessages req) (Contents req)"

section \<open>Tool declarations: \<open>convertToTools\<close>, \<open>normalizeSchema\<close>, \<open>fixSchemaMap\<close>\<close>

text \<open>
  \<open>strings.ToLower\<close> on ASCII text: the letters A to Z are mapped to a to z and every other
  byte stays (Go also maps upper case letters beyond ASCII; such text is outside this
  model).
\<close>

definition lowerChar :: "char \<Rightarrow> char" where
  "lowerChar c =
     (case map_of (zip ''ABCDEFGHIJKLMNOPQRSTUVWXYZ'' ''abcdefghijklmnopqrstuvwxyz'') c of
        Some l \<Rightarrow> l
      | None \<Rightarrow> c)"

definition ToLower :: "string \<Rightarrow> string" where
  "ToLower s = map lowerChar s"

text \<open>
  \<open>fixSchemaMap\<close>: the loop over the entries of \<open>m\<close>, with the assignment
  \<open>out[key] = x\<close> as \<open>AList.update key x out\<close>. The list \<open>m\<close> is visited front to back;
  its order stands for the order of that run of \<open>range m\<close>.
\<close>

fun fixSchemaMap :: "(string \<times> json) list \<Rightarrow> (string \<times> json) list" where
  "fixSchemaMap m =
     foldl (\<lambda>out (k, v).
        let key = ToLower k
        in (case v of
              JStr val \<Rightarrow>
                if key = ''type'' then AList.update key (JStr (ToLower val)) out
                else AList.update key (JStr val) out
            | JObj val \<Rightarrow>
                if key = ''properties''
                then AList.update key
                       (JObj (foldl (\<lambda>newProps (pk, pv).
                                (case pv of
                                   JObj plot \<Rightarrow> AList.update pk (JObj (fixSchemaMap plot)) newProps
                                 | _ \<Rightarrow> AList.update pk pv newProps))
                              [] val))
                       out
                else AList.update key (JObj (fixSchemaMap val)) out
            | _ \<Rightarrow> AList.update key v out))
       [] m"

declare fixSchemaMap.simps [simp del]

text \<open>
  \<open>normalizeSchema\<close> marshals the schema and unmarshals the text into a map. The schema
  is represented here by the JSON document \<open>json.Marshal\<close> gives for it, so the round
  trip is the identity; a schema that cannot be marshalled has no document and is not
  covered. Unmarshalling \<open>null\<close> leaves the map nil, and a document that is not an
  object makes \<open>json.Unmarshal\<close> fail, in which case the schema is returned as it is.
\<close>

definition normalizeSchema :: "json \<Rightarrow> json" where
  "normalizeSchema params =
     (case params of
        JObj raw \<Rightarrow> JObj (fixSchemaMap raw)
      | JNull \<Rightarrow> JObj (fixSchemaMap [])
      | _ \<Rightarrow> params)"

definition knownToolSchemas :: "string \<Rightarrow> json option" where
  "knownToolSchemas =
     map_of
       [(''query_database'',
           JObj [(''type'', JStr ''object''),
                 (''properties'',
                    JObj [(''sql'', JObj [(''type'', JStr ''string''),
                                          (''description'', JStr ''The SQL query to execute'')]),
                          (''limit'',
                             JObj [(''type'', JStr ''integer''),
                                   (''description'',
                                      JStr ''Maximum number of rows to return (default: 100)'')])]),
                 (''required'', JArr [JStr ''sql''])]),
        (''get_schema'',
           JObj [(''type'', JStr ''object''),
                 (''properties'',
                    JObj [(''table_name'',
                             JObj [(''type'', JStr ''string''),
                                   (''description'',
                                      JStr ''The name of the table to get schema for'')])]),
                 (''required'', JArr [JStr ''table_name''])]),
        (''list_tables'',
           JObj [(''type'', JStr ''object''), (''properties'', JObj [])]),
        (''describe_database'',
           JObj [(''type'', JStr ''object''), (''properties'', JObj [])]),
        (''generate_chart'',
           JObj [(''type'', JStr ''object''),
                 (''properties'',
                    JObj [(''chart_type'',
                             JObj [(''type'', JStr ''string''),
                                   (''description'',
                                      JStr ''Type of chart: bar, line, pie, scatter'')]),
                          (''title'', JObj [(''type'', JStr ''string''),
                                            (''description'', JStr ''Chart title'')]),
                          (''data'',
                             JObj [(''type'', JStr ''string''),
                                   (''description'',
                                      JStr ''JSON string containing the chart data'')])]),
                 (''required'', JArr [JStr ''chart_type'', JStr ''title'', JStr ''data''])])]"

definition emptyParams :: json where
  "emptyParams = JObj [(''type'', JStr ''object''), (''properties'', JObj [])]"

text \<open>The body of the inner loop of \<open>convertToTools\<close>: the tool built for one declaration.\<close>

definition declaredTool :: "FunctionDeclaration \<Rightarrow> toolDef" where
  "declaredTool fd =
     (let params =
            (case fd_Parameters fd of
               Some p \<Rightarrow> normalizeSchema p
             | None \<Rightarrow>
                 (case knownToolSchemas (fd_Name fd) of
                    Some schema \<Rightarrow> schema
                  | None \<Rightarrow> emptyParams))
      in \<lparr>td_Type = ''function'',
          td_Function = \<lparr>def_Name = fd_Name fd, def_Description = fd_Description fd,
                          def_Parameters = params\<rparr>\<rparr>)"

definition convertToTools :: "LLMRequest \<Rightarrow> toolDef list" where
  "convertToTools req =
     (case Config req of
        None \<Rightarrow> []
      | Some cfg \<Rightarrow>
          foldl (\<lambda>tools t. foldl (\<lambda>tools fd. tools @ [declaredTool fd]) tools
                              (FunctionDeclarations t))
            [] (Tools cfg))"

section \<open>Response decoding: \<open>convertToLLMResponse\<close>\<close>

text \<open>
  \<open>json.Unmarshal\<close> is a parameter \<open>dec\<close> of the model: \<open>None\<close> for a text that is not
  valid JSON, the decoded value otherwise. Unmarshalling into a nil
  \<open>map[string]interface{}\<close> fills the map from an object and leaves it nil for every
  other text; the error is dropped.
\<close>

type_synonym unmarshal = "string \<Rightarrow> json option"

definition unmarshalArgs :: "unmarshal \<Rightarrow> string \<Rightarrow> (string \<times> json) list" where
  "unmarshalArgs dec text = (case dec text of Some (JObj m) \<Rightarrow> m | _ \<Rightarrow> [])"

definition decodeToolCall :: "unmarshal \<Rightarrow> toolCall \<Rightarrow> Part" where
  "decodeToolCall dec tc =
     (let args = unmarshalArgs dec (fn_Arguments (tc_Function tc))
      in NewPartFromFunctionCall (fn_Name (tc_Function tc)) args)"

definition convertToLLMResponse :: "unmarshal \<Rightarrow> chatResponse \<Rightarrow> LLMResponse" where
  "convertToLLMResponse dec chatResp =
     (if length (Choices chatResp) = 0
      then \<lparr>LLMResponse_Content = None, LLMResponse_UsageMetadata = None\<rparr>
      else
        (let choice = Choices chatResp ! 0;
             parts0 = (if msg_Content (choice_Message choice) \<noteq> []
                       then [NewPartFromText (msg_Content (choice_Message choice))] else []);
             parts = foldl (\<lambda>parts tc. parts @ [decodeToolCall dec tc]) parts0
                       (msg_ToolCalls (choice_Message choice));
             content = \<lparr>Content_Role = ''model'', Content_Parts = parts\<rparr>
         in \<lparr>LLMResponse_Content = Some content,
             LLMResponse_UsageMetadata =
               Some \<lparr>PromptTokenCount = ucast (PromptTokens (Usage chatResp)),
                     CandidatesTokenCount = ucast (CompletionTokens (Usage chatResp)),
                     TotalTokenCount = ucast (TotalTokens (Usage chatResp))\<rparr>\<rparr>))"

section \<open>The intent classifier (package bert)\<close>

text \<open>
  Scores are \<open>float64\<close> in the source and exact rationals here. Every score is a sum of
  the constants 2, 1 and 0.5 divided by 23, 18 or 8, plus boosts of 0.5 and 1; two such
  values that differ as rationals differ by at least 1/828, so for a query of any
  realistic length the rounded comparisons of the source agree with the exact ones.
  The strings are ASCII: \<open>strings.Fields\<close> splits at the six ASCII white space
  characters.

  \<open>scores\<close> is a Go map with the three intents as keys; it is a function here. The
  loops \<open>for intent, score := range scores\<close> visit the keys in an order the Go
  runtime chooses anew for every loop. That order is the parameter \<open>order\<close> of
  \<open>Classify\<close> and \<open>ClassifyWithConfidence\<close>; the orders that can occur are the six
  in \<open>iterationOrders\<close>. The loop that fills \<open>scores\<close> computes each entry on its own,
  so its order does not show.
\<close>

datatype Intent = IntentSQLQuery | IntentVisualization | IntentGeneral

definition intentPrototypes :: "Intent \<Rightarrow> string list" where
  "intentPrototypes intent =
     (case intent of
        IntentSQLQuery \<Rightarrow>
          [''query'', ''select'', ''fetch'', ''get'', ''show'', ''list'', ''find'',
           ''database'', ''table'', ''data'', ''rows'', ''records'', ''sql'',
           ''where'', ''from'', ''join'', ''count'', ''sum'', ''average'',
           ''filter'', ''search'', ''lookup'', ''retrieve'']
      | IntentVisualization \<Rightarrow>
          [''chart'', ''graph'', ''plot'', ''visualize'', ''visualization'',
           ''bar'', ''line'', ''pie'', ''scatter'', ''histogram'',
           ''display'', ''render'', ''draw'', ''show chart'', ''create chart'',
           ''trend'', ''comparison'', ''distribution'']
      | IntentGeneral \<Rightarrow>
          [''help'', ''how'', ''what'', ''explain'', ''describe'',
           ''information'', ''about'', ''tell me''])"

text \<open>\<open>strings.Fields\<close>, \<open>strings.Contains\<close> and \<open>strings.HasPrefix\<close>.\<close>

definition isSpace :: "char \<Rightarrow> bool" where
  "isSpace c = (c \<in> set [CHR 0x09, CHR 0x0A, CHR 0x0B, CHR 0x0C, CHR 0x0D, CHR 0x20])"

fun fieldsFrom :: "string \<Rightarrow> string \<Rightarrow> string list" where
  "fieldsFrom cur [] = (if cur = [] then [] else [cur])"
| "fieldsFrom cur (c # cs) =
     (if isSpace c then (if cur = [] then fieldsFrom [] cs else cur # fieldsFrom [] cs)
      else fieldsFrom (cur @ [c]) cs)"

definition Fields :: "string \<Rightarrow> string list" where
  "Fields s = fieldsFrom [] s"

fun Contains :: "string \<Rightarrow> string \<Rightarrow> bool" where
  "Contains [] substr = (substr = [])"
| "Contains (c # cs) substr = (prefix substr (c # cs) \<or> Contains cs substr)"

definition HasPrefix :: "string \<Rightarrow> string \<Rightarrow> bool" where
  "HasPrefix s p = prefix p s"

definition containsAny :: "string \<Rightarrow> string list \<Rightarrow> bool" where
  "containsAny s substrs = list_ex (\<lambda>substr. Contains s substr) substrs"

text \<open>The body of the loop over \<open>c.intentPrototypes\<close>: the normalized keyword score of
  one intent. Both classification functions of the source contain this loop.\<close>

definition keywordScore :: "string \<Rightarrow> string list \<Rightarrow> string list \<Rightarrow> rat" where
  "keywordScore queryLower words keywords =
     foldl (\<lambda>score keyword.
        if Contains queryLower keyword
        then (let score1 =
                    foldl (\<lambda>score word.
                       if word = keyword then score + 2
                       else if Contains word keyword \<or> Contains keyword word then score + 1
                       else score) score words
              in if score1 = 0 then score1 + 1/2 else score1)
        else score) 0 keywords
     / of_nat (length keywords)"

definition applyHeuristics :: "string \<Rightarrow> (Intent \<Rightarrow> rat) \<Rightarrow> (Intent \<Rightarrow> rat)" where
  "applyHeuristics query scores =
     (let scores1 = (if containsAny query [''chart'', ''graph'', ''plot'', ''visualize'']
                     then scores(IntentVisualization := scores IntentVisualization + 1)
                     else scores);
          scores2 = (if containsAny query [''table'', ''schema'', ''column'', ''database'']
                     then scores1(IntentSQLQuery := scores1 IntentSQLQuery + 1/2)
                     else scores1);
          scores3 = (if containsAny query [''show'', ''display''] \<and>
                        containsAny query [''chart'', ''graph'']
                     then scores2(IntentVisualization := scores2 IntentVisualization + 1/2)
                     else scores2)
      in if (HasPrefix query ''how many'' \<or> HasPrefix query ''what is'') \<and>
            containsAny query [''in the database'', ''in the table'', ''records'', ''rows'']
         then scores3(IntentSQLQuery := scores3 IntentSQLQuery + 1/2)
         else scores3)"

text \<open>The scores after the keyword loop and \<open>applyHeuristics\<close>, the common first half
  of \<open>Classify\<close> and \<open>ClassifyWithConfidence\<close>.\<close>

definition adjustedScores :: "string \<Rightarrow> Intent \<Rightarrow> rat" where
  "adjustedScores query =
     (let queryLower = ToLower query;
          words = Fields queryLower;
          scores = (\<lambda>intent. keywordScore queryLower words (intentPrototypes intent))
      in applyHeuristics queryLower scores)"

definition Classify :: "Intent list \<Rightarrow> string \<Rightarrow> Intent" where
  "Classify order query =
     (let scores = adjustedScores query;
          (maxScore, bestIntent) =
             foldl (\<lambda>(maxScore, bestIntent) intent.
                      if scores intent > maxScore then (scores intent, intent)
                      else (maxScore, bestIntent))
                   (0, IntentGeneral) order
      in if maxScore < 1/10 then IntentGeneral else bestIntent)"

definition ClassifyWithConfidence :: "Intent list \<Rightarrow> string \<Rightarrow> Intent \<times> rat" where
  "ClassifyWithConfidence order query =
     (let scores = adjustedScores query;
          (maxScore, secondScore, bestIntent) =
             foldl (\<lambda>(maxScore, secondScore, bestIntent) intent.
                      if scores intent > maxScore then (scores intent, maxScore, intent)
                      else if scores intent > secondScore then (maxScore, scores intent, bestIntent)
                      else (maxScore, secondScore, bestIntent))
                   (0, 0, IntentGeneral) order;
          confidence =
             (if maxScore > 0
              then (if secondScore > 0 then (maxScore - secondScore) / maxScore
                    else min maxScore 1)
              else 0)
      in if maxScore < 1/10 then (IntentGeneral, 0) else (bestIntent, confidence))"

text \<open>The orders in which a loop over the three keys of \<open>scores\<close> can run.\<close>

definition iterationOrders :: "Intent list list" where
  "iterationOrders =
     [[IntentSQLQuery, IntentVisualization, IntentGeneral],
      [IntentSQLQuery, IntentGeneral, IntentVisualization],
      [IntentVisualization, IntentSQLQuery, IntentGeneral],
      [IntentVisualization, IntentGeneral, IntentSQLQuery],
      [IntentGeneral, IntentSQLQuery, IntentVisualization],
      [IntentGeneral, IntentVisualization, IntentSQLQuery]]"

section \<open>Vocabulary for the properties of the message sequence\<close>



definition turnHead :: "marshal \<Rightarrow> Content \<Rightarrow> chatMessage list" where
  "turnHead enc content =
     (let acc = collectParts enc (Content_Parts content)
      in if length (funcCalls acc) > 0
         then [\<lparr>msg_Role = ''assistant'', msg_Content = textContent acc,
                msg_ToolCalls = funcCalls acc, msg_ToolCallID = []\<rparr>]
         else if textContent acc \<noteq> []
         then [\<lparr>msg_Role = wireRole content, msg_Content = textContent acc,
                msg_ToolCalls = [], msg_ToolCallID = []\<rparr>]
         else [])"

definition turnMessages :: "marshal \<Rightarrow> Content \<Rightarrow> chatMessage list" where
  "turnMessages enc content =
     turnHead enc content @
     map toolMessage (funcResponses (collectParts enc (Content_Parts content)))"




text \<open>A user message directly after a tool message, somewhere in a sequence.\<close>

fun userAfterTool :: "chatMessage list \<Rightarrow> bool" where
  "userAfterTool (a # b # rest) =
     ((msg_Role a = ''tool'' \<and> msg_Role b = ''user'') \<or> userAfterTool (b # rest))"
| "userAfterTool _ = False"

text \<open>A plain text message directly after a message of the same role that has neither
  tool calls nor a tool call id: the situation in which the complete adapter merges.\<close>

definition plainText :: "chatMessage \<Rightarrow> bool" where
  "plainText m = ((msg_Role m = ''user'' \<or> msg_Role m = ''assistant'') \<and> msg_ToolCalls m = [])"

fun mergeTriggered :: "chatMessage list \<Rightarrow> bool" where
  "mergeTriggered (a # b # rest) =
     ((plainText b \<and> msg_Role a = msg_Role b \<and> msg_ToolCalls a = [] \<and> msg_ToolCallID a = [])
      \<or> mergeTriggered (b # rest))"
| "mergeTriggered _ = False"

text \<open>
  \<open>toolCallsResolved seen ms\<close>: the tool call id of every tool message of \<open>ms\<close> is in
  \<open>seen\<close> or is the id of a tool call of an assistant message earlier in \<open>ms\<close>.
  \<open>responsesAnswered seen cs\<close> is the matching condition on the input turns: the id of
  every function response is in \<open>seen\<close> or is the id of a function call of the same or
  of an earlier turn.
\<close>

definition idsOf :: "chatMessage \<Rightarrow> string set" where
  "idsOf m = (if msg_Role m = ''assistant'' then set (map tc_ID (msg_ToolCalls m)) else {})"

definition callIds :: "chatMessage list \<Rightarrow> string set" where
  "callIds ms = (\<Union>m \<in> set ms. idsOf m)"

fun toolCallsResolved :: "string set \<Rightarrow> chatMessage list \<Rightarrow> bool" where
  "toolCallsResolved seen [] = True"
| "toolCallsResolved seen (m # ms) =
     ((msg_Role m = ''tool'' \<longrightarrow> msg_ToolCallID m \<in> seen) \<and>
      toolCallsResolved (seen \<union> idsOf m) ms)"

definition resolvedAt :: "string set \<Rightarrow> chatMessage list \<Rightarrow> nat \<Rightarrow> bool" where
  "resolvedAt seen ms i =
     (msg_Role (ms ! i) = ''tool'' \<longrightarrow>
        msg_ToolCallID (ms ! i) \<in> seen \<or>
        (\<exists>j < i. msg_Role (ms ! j) = ''assistant'' \<and>
                  msg_ToolCallID (ms ! i) \<in> tc_ID ` set (msg_ToolCalls (ms ! j))))"




text \<open>Concrete inputs of the examples. \<open>exampleMarshal\<close> stands for \<open>json.Marshal\<close>
  there; it encodes the empty map as Go does.\<close>

definition exampleMarshal :: marshal where
  "exampleMarshal args = (if args = [] then ''{}'' else ''{...}'')"

definition callPart :: "string \<Rightarrow> string \<Rightarrow> Part" where
  "callPart i n = \<lparr>Part_Text = [],
     Part_FunctionCall = Some \<lparr>FunctionCall_ID = i, FunctionCall_Name = n, FunctionCall_Args = []\<rparr>,
     Part_FunctionResponse = None\<rparr>"

definition responsePart :: "string \<Rightarrow> string \<Rightarrow> Part" where
  "responsePart i n = \<lparr>Part_Text = [], Part_FunctionCall = None,
     Part_FunctionResponse =
       Some \<lparr>FunctionResponse_ID = i, FunctionResponse_Name = n, FunctionResponse_Response = []\<rparr>\<rparr>"





definition exampleArgsText :: string where
  "exampleArgsText = ''{'' @ [CHR 0x22] @ ''limit'' @ [CHR 0x22] @ '':5}''"

definition exampleUnmarshal :: unmarshal where
  "exampleUnmarshal text =
     (if text = ''{}'' then Some (JObj [])
      else if text = ''null'' then Some JNull
      else if text = exampleArgsText then Some (JObj [(''limit'', JNum 5)])
      else None)"

definition exampleResponse :: chatResponse where
  "exampleResponse =
     \<lparr>chatResponse_ID = ''r1'',
      Choices =
        [\<lparr>choice_Index = 0,
          choice_Message =
            \<lparr>msg_Role = ''assistant'', msg_Content = ''Looking it up'',
             msg_ToolCalls =
               [\<lparr>tc_ID = ''a'', tc_Type = ''function'',
                  tc_Function = \<lparr>fn_Name = ''query_database'', fn_Arguments = ''{broken''\<rparr>\<rparr>,
                \<lparr>tc_ID = ''b'', tc_Type = ''function'',
                  tc_Function = \<lparr>fn_Name = ''list_tables'', fn_Arguments = exampleArgsText\<rparr>\<rparr>],
             msg_ToolCallID = []\<rparr>,
          choice_FinishReason = ''tool_calls''\<rparr>],
      Usage = \<lparr>PromptTokens = 7, CompletionTokens = 3, TotalTokens = 10\<rparr>\<rparr>"

text \<open>The two selection loops on their own, the confidence formula, and the maximum and
  the runner-up of the three scores, written without reference to an order.\<close>

definition findBest :: "Intent list \<Rightarrow> (Intent \<Rightarrow> rat) \<Rightarrow> rat \<times> Intent" where
  "findBest order scores =
     foldl (\<lambda>(maxScore, bestIntent) intent.
              if scores intent > maxScore then (scores intent, intent)
              else (maxScore, bestIntent))
           (0, IntentGeneral) order"

definition findTopTwo :: "Intent list \<Rightarrow> (Intent \<Rightarrow> rat) \<Rightarrow> rat \<times> rat \<times> Intent" where
  "findTopTwo order scores =
     foldl (\<lambda>(maxScore, secondScore, bestIntent) intent.
              if scores intent > maxScore then (scores intent, maxScore, intent)
              else if scores intent > secondScore then (maxScore, scores intent, bestIntent)
              else (maxScore, secondScore, bestIntent))
           (0, 0, IntentGeneral) order"

definition confidenceOf :: "rat \<Rightarrow> rat \<Rightarrow> rat" where
  "confidenceOf maxScore secondScore =
     (if maxScore > 0
      then (if secondScore > 0 then (maxScore - secondScore) / maxScore else min maxScore 1)
      else 0)"

definition maxScoreOf :: "(Intent \<Rightarrow> rat) \<Rightarrow> rat" where
  "maxScoreOf scores =
     max (scores IntentSQLQuery) (max (scores IntentVisualization) (scores IntentGeneral))"

definition secondScoreOf :: "(Intent \<Rightarrow> rat) \<Rightarrow> rat" where
  "secondScoreOf scores =
     max (min (scores IntentSQLQuery) (scores IntentVisualization))
         (max (min (scores IntentSQLQuery) (scores IntentGeneral))
              (min (scores IntentVisualization) (scores IntentGeneral)))"

definition tiedAtTop :: "(Intent \<Rightarrow> rat) \<Rightarrow> bool" where
  "tiedAtTop scores =
     (2 \<le> length (filter (\<lambda>intent. scores intent = maxScoreOf scores)
                     [IntentSQLQuery, IntentVisualization, IntentGeneral]))"


section \<open>Properties of request construction\<close>

subsection \<open>The loop over the parts of a turn\<close>







lemma wireRole_cases: "wireRole c = ''user'' \<or> wireRole c = ''assistant''"
  by (simp add: wireRole_def)

subsection \<open>The repair loop\<close>



lemma userAfterTool_append:
  "userAfterTool (xs @ ys) =
     (userAfterTool xs \<or> userAfterTool ys \<or>
      (xs \<noteq> [] \<and> ys \<noteq> [] \<and> msg_Role (last xs) = ''tool'' \<and> msg_Role (hd ys) = ''user''))"
proof (induction xs)
  case Nil
  then show ?case by simp
next
  case (Cons a xs)
  then show ?case by (cases xs; cases ys) auto
qed




lemma repairStep_cases:
  "repairStep fm m = fm @ [m] \<and>
     \<not> (msg_Role m = ''user'' \<and> fm \<noteq> [] \<and> msg_Role (last fm) = ''tool'')
   \<or> repairStep fm m = fm @ [syntheticAssistant, m] \<and>
     msg_Role m = ''user'' \<and> fm \<noteq> [] \<and> msg_Role (last fm) = ''tool''"
  by (simp add: repairStep_def)







lemma foldl_repairStep_id:
  "\<not> userAfterTool (acc @ ms) \<Longrightarrow> foldl repairStep acc ms = acc @ ms"
proof (induction ms arbitrary: acc)
  case Nil
  then show ?case by simp
next
  case (Cons m ms)
  have "\<not> userAfterTool ((acc @ [m]) @ ms)" using Cons.prems by simp
  then have "foldl repairStep (acc @ [m]) ms = (acc @ [m]) @ ms" by (rule Cons.IH)
  moreover have "repairStep acc m = acc @ [m]"
    using Cons.prems repairStep_cases [of acc m] by (auto simp: userAfterTool_append)
  ultimately show ?case by simp
qed

lemma alternationRepair_id: "\<not> userAfterTool ms \<Longrightarrow> alternationRepair ms = ms"
  using foldl_repairStep_id [of "[]" ms] by (simp add: alternationRepair_def)

subsection \<open>Merging of plain text turns\<close>




subsection \<open>The complete adapter against the earlier one\<close>

lemma mergeTriggered_append:
  "mergeTriggered (xs @ ys) =
     (mergeTriggered xs \<or> mergeTriggered ys \<or>
      (xs \<noteq> [] \<and> ys \<noteq> [] \<and> plainText (hd ys) \<and> msg_Role (last xs) = msg_Role (hd ys) \<and>
       msg_ToolCalls (last xs) = [] \<and> msg_ToolCallID (last xs) = []))"
proof (induction xs)
  case Nil
  then show ?case by simp
next
  case (Cons a xs)
  then show ?case by (cases xs; cases ys) auto
qed

lemma addTurn_simple_eq: "addTurn_simple enc ms c = ms @ turnMessages enc c"
  by (simp add: addTurn_simple_def turnMessages_def turnHead_def Let_def)

lemma foldl_addTurn_simple_eq:
  "foldl (addTurn_simple enc) acc cs = acc @ concat (map (turnMessages enc) cs)"
  by (induction cs arbitrary: acc) (simp_all add: addTurn_simple_eq)

lemma addTurn_no_merge:
  assumes "\<not> mergeTriggered (ms @ turnMessages enc c)"
  shows "addTurn enc ms c = ms @ turnMessages enc c"
proof (cases "funcCalls (collectParts enc (Content_Parts c)) = [] \<and>
              textContent (collectParts enc (Content_Parts c)) \<noteq> [] \<and> canMerge ms (wireRole c)")
  case False
  then show ?thesis by (auto simp: addTurn_def turnMessages_def turnHead_def Let_def)
next
  case True
  then have "mergeTriggered (ms @ turnMessages enc c)"
    using wireRole_cases [of c]
    by (auto simp: mergeTriggered_append turnMessages_def turnHead_def Let_def canMerge_def
        plainText_def)
  with assms show ?thesis by simp
qed

lemma foldl_addTurn_no_merge:
  "\<not> mergeTriggered (acc @ concat (map (turnMessages enc) cs)) \<Longrightarrow>
   foldl (addTurn enc) acc cs = acc @ concat (map (turnMessages enc) cs)"
proof (induction cs arbitrary: acc)
  case Nil
  then show ?case by simp
next
  case (Cons c cs)
  have a: "\<not> mergeTriggered ((acc @ turnMessages enc c) @ concat (map (turnMessages enc) cs))"
    using Cons.prems by simp
  then have "\<not> mergeTriggered (acc @ turnMessages enc c)"
    using mergeTriggered_append [of "acc @ turnMessages enc c" "concat (map (turnMessages enc) cs)"]
    by blast
  then have "addTurn enc acc c = acc @ turnMessages enc c" by (rule addTurn_no_merge)
  then show ?case using Cons.IH [OF a] by simp
qed

lemma versions_agree:
  assumes "\<not> mergeTriggered (convertToMessages_simple enc req)"
    and "\<not> userAfterTool (convertToMessages_simple enc req)"
  shows "convertToMessages enc req = convertToMessages_simple enc req"
proof -
  have s: "convertToMessages_simple enc req =
             systemMessages req @ concat (map (turnMessages enc) (Contents req))"
    by (simp add: convertToMessages_simple_def foldl_addTurn_simple_eq)
  have "buildMessages enc req = convertToMessages_simple enc req"
    using assms(1) unfolding s buildMessages_def by (rule foldl_addTurn_no_merge)
  then show ?thesis using assms(2) by (simp add: convertToMessages_def alternationRepair_id)
qed

subsection \<open>Tool messages and the tool calls they answer\<close>


lemma toolCallsResolved_append:
  "toolCallsResolved seen (xs @ ys) =
     (toolCallsResolved seen xs \<and> toolCallsResolved (seen \<union> callIds xs) ys)"
  by (induction xs arbitrary: seen) (auto simp: callIds_def Un_assoc)

lemma bex_set_nth: "(\<exists>m \<in> set ms. Q m) \<longleftrightarrow> (\<exists>j < length ms. Q (ms ! j))"
  using nth_mem [of _ ms] by (auto simp: in_set_conv_nth)

lemma callIds_index:
  "x \<in> callIds ms \<longleftrightarrow>
     (\<exists>j < length ms. msg_Role (ms ! j) = ''assistant'' \<and>
                       x \<in> tc_ID ` set (msg_ToolCalls (ms ! j)))"
proof -
  have "x \<in> callIds ms \<longleftrightarrow>
        (\<exists>m \<in> set ms. msg_Role m = ''assistant'' \<and> x \<in> tc_ID ` set (msg_ToolCalls m))"
    by (auto simp: callIds_def idsOf_def split: if_splits)
  also have "\<dots> \<longleftrightarrow> (\<exists>j < length ms. msg_Role (ms ! j) = ''assistant'' \<and>
                     x \<in> tc_ID ` set (msg_ToolCalls (ms ! j)))"
    by (rule bex_set_nth)
  finally show ?thesis .
qed

lemma resolvedAt_snoc_old:
  "i < length ms \<Longrightarrow> resolvedAt seen (ms @ [m]) i = resolvedAt seen ms i"
proof -
  assume i: "i < length ms"
  then have "(ms @ [m]) ! j = ms ! j" if "j \<le> i" for j
    using that by (simp add: nth_append)
  then have "(ms @ [m]) ! i = ms ! i" and "\<forall>j < i. (ms @ [m]) ! j = ms ! j"
    by simp_all
  then show ?thesis unfolding resolvedAt_def by auto
qed

lemma resolvedAt_snoc_new:
  "resolvedAt seen (ms @ [m]) (length ms) =
     (msg_Role m = ''tool'' \<longrightarrow> msg_ToolCallID m \<in> seen \<union> callIds ms)"
proof -
  have "\<forall>j < length ms. (ms @ [m]) ! j = ms ! j" by (simp add: nth_append)
  then show ?thesis unfolding resolvedAt_def callIds_index Un_iff by auto
qed

text \<open>The recursive predicate says what its name says, position by position.\<close>

lemma toolCallsResolved_index:
  "toolCallsResolved seen ms = (\<forall>i < length ms. resolvedAt seen ms i)"
proof (induction ms rule: rev_induct)
  case Nil
  then show ?case by simp
next
  case (snoc m ms)
  have "(\<forall>i < length (ms @ [m]). resolvedAt seen (ms @ [m]) i) \<longleftrightarrow>
        (\<forall>i < length ms. resolvedAt seen (ms @ [m]) i) \<and> resolvedAt seen (ms @ [m]) (length ms)"
    by (simp add: less_Suc_eq) blast
  also have "\<dots> \<longleftrightarrow> (\<forall>i < length ms. resolvedAt seen ms i) \<and>
                   (msg_Role m = ''tool'' \<longrightarrow> msg_ToolCallID m \<in> seen \<union> callIds ms)"
    by (simp add: resolvedAt_snoc_old resolvedAt_snoc_new)
  also have "\<dots> \<longleftrightarrow> toolCallsResolved seen (ms @ [m])"
    by (simp add: toolCallsResolved_append snoc.IH)
  finally show ?case by simp
qed














section \<open>The claims about request construction\<close>








text \<open>
  C10. When the sequence of the earlier adapter has no plain text message directly after
  a message of the same role without tool calls and tool call id, and no user message
  directly after a tool message, the complete adapter returns the same sequence.
\<close>

theorem C10_versions_agree:
  "\<not> mergeTriggered (convertToMessages_simple enc req) \<Longrightarrow>
   \<not> userAfterTool (convertToMessages_simple enc req) \<Longrightarrow>
   convertToMessages enc req = convertToMessages_simple enc req"
  by (rule versions_agree)

theorem C10_versions_agree_witness:
  "\<not> mergeTriggered (convertToMessages_simple exampleMarshal
       \<lparr>Config = None,
        Contents = [\<lparr>Content_Role = ''user'', Content_Parts = [NewPartFromText ''hi'']\<rparr>,
                    \<lparr>Content_Role = ''model'', Content_Parts = [callPart ''call_1'' ''list_tables'']\<rparr>,
                    \<lparr>Content_Role = ''user'', Content_Parts = [responsePart ''call_1'' ''list_tables'']\<rparr>,
                    \<lparr>Content_Role = ''model'', Content_Parts = [NewPartFromText ''done'']\<rparr>]\<rparr>)
   \<and> \<not> userAfterTool (convertToMessages_simple exampleMarshal
       \<lparr>Config = None,
        Contents = [\<lparr>Content_Role = ''user'', Content_Parts = [NewPartFromText ''hi'']\<rparr>,
                    \<lparr>Content_Role = ''model'', Content_Parts = [callPart ''call_1'' ''list_tables'']\<rparr>,
                    \<lparr>Content_Role = ''user'', Content_Parts = [responsePart ''call_1'' ''list_tables'']\<rparr>,
                    \<lparr>Content_Role = ''model'', Content_Parts = [NewPartFromText ''done'']\<rparr>]\<rparr>)
   \<and> convertToMessages exampleMarshal
       \<lparr>Config = None,
        Contents = [\<lparr>Content_Role = ''user'', Content_Parts = [NewPartFromText ''hi'']\<rparr>,
                    \<lparr>Content_Role = ''model'', Content_Parts = [callPart ''call_1'' ''list_tables'']\<rparr>,
                    \<lparr>Content_Role = ''user'', Content_Parts = [responsePart ''call_1'' ''list_tables'']\<rparr>,
                    \<lparr>Content_Role = ''model'', Content_Parts = [NewPartFromText ''done'']\<rparr>]\<rparr>
     = [\<lparr>msg_Role = ''user'', msg_Content = ''hi'', msg_ToolCalls = [], msg_ToolCallID = []\<rparr>,
        \<lparr>msg_Role = ''assistant'', msg_Content = [],
          msg_ToolCalls = [\<lparr>tc_ID = ''call_1'', tc_Type = ''function'',
              tc_Function = \<lparr>fn_Name = ''list_tables'', fn_Arguments = ''{}''\<rparr>\<rparr>],
          msg_ToolCallID = []\<rparr>,
        \<lparr>msg_Role = ''tool'', msg_Content = ''{}'', msg_ToolCalls = [], msg_ToolCallID = ''call_1''\<rparr>,
        \<lparr>msg_Role = ''assistant'', msg_Content = ''done'', msg_ToolCalls = [], msg_ToolCallID = []\<rparr>]"
proof -
  let ?req = "\<lparr>Config = None,
        Contents = [\<lparr>Content_Role = ''user'', Content_Parts = [NewPartFromText ''hi'']\<rparr>,
                    \<lparr>Content_Role = ''model'', Content_Parts = [callPart ''call_1'' ''list_tables'']\<rparr>,
                    \<lparr>Content_Role = ''user'', Content_Parts = [responsePart ''call_1'' ''list_tables'']\<rparr>,
                    \<lparr>Content_Role = ''model'', Content_Parts = [NewPartFromText ''done'']\<rparr>]\<rparr>"
  have s: "convertToMessages_simple exampleMarshal ?req
     = [\<lparr>msg_Role = ''user'', msg_Content = ''hi'', msg_ToolCalls = [], msg_ToolCallID = []\<rparr>,
        \<lparr>msg_Role = ''assistant'', msg_Content = [],
          msg_ToolCalls = [\<lparr>tc_ID = ''call_1'', tc_Type = ''function'',
              tc_Function = \<lparr>fn_Name = ''list_tables'', fn_Arguments = ''{}''\<rparr>\<rparr>],
          msg_ToolCallID = []\<rparr>,
        \<lparr>msg_Role = ''tool'', msg_Content = ''{}'', msg_ToolCalls = [], msg_ToolCallID = ''call_1''\<rparr>,
        \<lparr>msg_Role = ''assistant'', msg_Content = ''done'', msg_ToolCalls = [], msg_ToolCallID = []\<rparr>]"
    by (simp add: convertToMessages_simple_def addTurn_simple_def toolMessage_def wireRole_def
        systemMessages_def collectParts_def collectPart_def NewPartFromText_def callPart_def
        responsePart_def exampleMarshal_def Let_def)
  have h1: "\<not> mergeTriggered (convertToMessages_simple exampleMarshal ?req)"
    unfolding s by (simp add: plainText_def)
  have h2: "\<not> userAfterTool (convertToMessages_simple exampleMarshal ?req)"
    unfolding s by simp
  show ?thesis using h1 h2 C10_versions_agree [OF h1 h2] s by simp
qed

section \<open>Properties of schema normalization\<close>















section \<open>Properties of response decoding\<close>






text \<open>
  C9. A response with no choices decodes to the empty response: no content, hence no text
  part and no function call part, and no usage counters. The decoder has no error result.
\<close>

theorem C9_no_choices:
  "Choices chatResp = [] \<Longrightarrow>
   convertToLLMResponse dec chatResp =
     \<lparr>LLMResponse_Content = None, LLMResponse_UsageMetadata = None\<rparr>"
  by (simp add: convertToLLMResponse_def)

theorem C9_no_choices_witness:
  "Choices (exampleResponse\<lparr>Choices := []\<rparr>) = [] \<and>
   convertToLLMResponse exampleUnmarshal (exampleResponse\<lparr>Choices := []\<rparr>) =
     \<lparr>LLMResponse_Content = None, LLMResponse_UsageMetadata = None\<rparr>"
  using C9_no_choices [of "exampleResponse\<lparr>Choices := []\<rparr>" exampleUnmarshal] by simp

section \<open>Properties of the classifier\<close>

lemma Classify_findBest:
  "Classify order query =
     (if fst (findBest order (adjustedScores query)) < 1/10 then IntentGeneral
      else snd (findBest order (adjustedScores query)))"
  by (simp add: Classify_def findBest_def Let_def split: prod.splits)

lemma ClassifyWithConfidence_findTopTwo:
  "ClassifyWithConfidence order query =
     (let r = findTopTwo order (adjustedScores query)
      in if fst r < 1/10 then (IntentGeneral, 0)
         else (snd (snd r), confidenceOf (fst r) (fst (snd r))))"
  by (simp add: ClassifyWithConfidence_def findTopTwo_def confidenceOf_def Let_def
      split: prod.splits)

lemma Contains_sublist: "Contains s substr = sublist substr s"
  by (induction s) (simp_all add: sublist_Cons_right)

lemma Contains_trans: "Contains s a \<Longrightarrow> Contains a b \<Longrightarrow> Contains s b"
  unfolding Contains_sublist by (rule sublist_order.order.trans)

lemma containsAny_member:
  "\<not> containsAny s substrs \<Longrightarrow> k \<in> set substrs \<Longrightarrow> \<not> Contains s k"
  by (auto simp: containsAny_def list_ex_iff)

subsection \<open>Keyword scores\<close>




lemma keywordLoop_zero:
  "\<not> containsAny queryLower kws \<Longrightarrow>
   foldl (\<lambda>score keyword.
        if Contains queryLower keyword
        then (let score1 =
                    foldl (\<lambda>score word.
                       if word = keyword then score + 2
                       else if Contains word keyword \<or> Contains keyword word then score + 1
                       else score) score words
              in if score1 = 0 then score1 + 1/2 else score1)
        else score) (acc::rat) kws = acc"
  by (induction kws arbitrary: acc) (simp_all add: containsAny_def)

lemma keywordScore_zero:
  "\<not> containsAny queryLower keywords \<Longrightarrow> keywordScore queryLower words keywords = 0"
  by (simp add: keywordScore_def keywordLoop_zero)

subsection \<open>Heuristics\<close>

lemma heuristics_Visualization:
  assumes "\<not> containsAny q (intentPrototypes IntentVisualization)"
  shows "applyHeuristics q scores IntentVisualization = scores IntentVisualization"
proof -
  have "\<not> Contains q ''chart''" "\<not> Contains q ''graph''" "\<not> Contains q ''plot''"
    "\<not> Contains q ''visualize''"
    using assms by (simp_all add: intentPrototypes_def containsAny_def)
  then show ?thesis by (simp add: applyHeuristics_def containsAny_def Let_def)
qed

lemma heuristics_General: "applyHeuristics q scores IntentGeneral = scores IntentGeneral"
  by (simp add: applyHeuristics_def Let_def)

lemma heuristics_SQL_ge: "scores IntentSQLQuery \<le> applyHeuristics q scores IntentSQLQuery"
  by (simp add: applyHeuristics_def Let_def)


lemma heuristics_SQL_none:
  assumes "\<not> containsAny q (intentPrototypes IntentSQLQuery)"
    and "\<not> Contains q ''schema''" and "\<not> Contains q ''column''"
  shows "applyHeuristics q scores IntentSQLQuery = scores IntentSQLQuery"
proof -
  have k: "\<not> Contains q ''table''" "\<not> Contains q ''database''" "\<not> Contains q ''records''"
    "\<not> Contains q ''rows''"
    using assms(1) by (simp_all add: intentPrototypes_def containsAny_def)
  have "Contains ''in the database'' ''database''" "Contains ''in the table'' ''table''"
    by simp_all
  then have "\<not> Contains q ''in the database''" "\<not> Contains q ''in the table''"
    using k Contains_trans by blast+
  then show ?thesis using k assms(2,3) by (simp add: applyHeuristics_def containsAny_def Let_def)
qed

subsection \<open>The selection loops\<close>

lemma findBest_fst_foldl:
  "fst (foldl (\<lambda>(maxScore, bestIntent) intent.
              if scores intent > maxScore then (scores intent, intent)
              else (maxScore, bestIntent)) (m, b) order) = foldl max (m::rat) (map scores order)"
  by (induction order arbitrary: m b) (simp_all add: max_def)

lemma findBest_max:
  "order \<in> set iterationOrders \<Longrightarrow> fst (findBest order scores) = max 0 (maxScoreOf scores)"
  unfolding findBest_def findBest_fst_foldl
  by (auto simp: iterationOrders_def maxScoreOf_def max_def)

lemma findBest_attained_gen:
  "(0 < m \<longrightarrow> scores b = m) \<Longrightarrow>
   0 < fst (foldl (\<lambda>(maxScore, bestIntent) intent.
              if scores intent > maxScore then (scores intent, intent)
              else (maxScore, bestIntent)) (m, b) order) \<Longrightarrow>
   scores (snd (foldl (\<lambda>(maxScore, bestIntent) intent.
              if scores intent > maxScore then (scores intent, intent)
              else (maxScore, bestIntent)) (m, b) order)) =
   fst (foldl (\<lambda>(maxScore, bestIntent) intent.
              if scores intent > maxScore then (scores intent, intent)
              else (maxScore, bestIntent)) ((m::rat), b) order)"
proof (induction order arbitrary: m b)
  case Nil
  then show ?case by simp
next
  case (Cons i order)
  show ?case
  proof (cases "scores i > m")
    case True
    then show ?thesis using Cons.IH [of "scores i" i] Cons.prems(2) by simp
  next
    case False
    then show ?thesis using Cons.IH [of m b] Cons.prems by simp
  qed
qed

lemma findBest_attained:
  "0 < fst (findBest order scores) \<Longrightarrow>
   scores (snd (findBest order scores)) = fst (findBest order scores)"
  unfolding findBest_def by (rule findBest_attained_gen) simp

lemma untied_unique:
  "\<not> tiedAtTop scores \<Longrightarrow> scores a = maxScoreOf scores \<Longrightarrow> scores b = maxScoreOf scores \<Longrightarrow>
   a = b"
  by (cases a; cases b) (auto simp: tiedAtTop_def split: if_splits)

lemma findTopTwo_findBest_gen:
  "fst (foldl (\<lambda>(maxScore, secondScore, bestIntent) intent.
              if scores intent > maxScore then (scores intent, maxScore, intent)
              else if scores intent > secondScore then (maxScore, scores intent, bestIntent)
              else (maxScore, secondScore, bestIntent)) ((m::rat), sec, b) order)
     = fst (foldl (\<lambda>(maxScore, bestIntent) intent.
              if scores intent > maxScore then (scores intent, intent)
              else (maxScore, bestIntent)) (m, b) order)
   \<and> snd (snd (foldl (\<lambda>(maxScore, secondScore, bestIntent) intent.
              if scores intent > maxScore then (scores intent, maxScore, intent)
              else if scores intent > secondScore then (maxScore, scores intent, bestIntent)
              else (maxScore, secondScore, bestIntent)) (m, sec, b) order))
     = snd (foldl (\<lambda>(maxScore, bestIntent) intent.
              if scores intent > maxScore then (scores intent, intent)
              else (maxScore, bestIntent)) (m, b) order)"
  by (induction order arbitrary: m sec b) simp_all

lemma findTopTwo_findBest:
  "fst (findTopTwo order scores) = fst (findBest order scores)"
  "snd (snd (findTopTwo order scores)) = snd (findBest order scores)"
  by (simp_all add: findTopTwo_def findBest_def findTopTwo_findBest_gen)

lemma findTopTwo_second:
  "order \<in> set iterationOrders \<Longrightarrow>
   fst (snd (findTopTwo order scores)) = max 0 (secondScoreOf scores)"
  unfolding findTopTwo_def
  by (auto simp: iterationOrders_def secondScoreOf_def max_def min_def)

lemma findTopTwo_bounds_gen:
  "0 \<le> sec \<Longrightarrow> sec \<le> m \<Longrightarrow>
   (case foldl (\<lambda>(maxScore, secondScore, bestIntent) intent.
              if scores intent > maxScore then (scores intent, maxScore, intent)
              else if scores intent > secondScore then (maxScore, scores intent, bestIntent)
              else (maxScore, secondScore, bestIntent)) ((m::rat), sec, b) order
    of (m', sec', b') \<Rightarrow> 0 \<le> sec' \<and> sec' \<le> m')"
  by (induction order arbitrary: m sec b) auto

lemma findTopTwo_bounds:
  "0 \<le> fst (snd (findTopTwo order scores)) \<and>
   fst (snd (findTopTwo order scores)) \<le> fst (findTopTwo order scores)"
  using findTopTwo_bounds_gen [of 0 0 scores IntentGeneral order]
  by (simp add: findTopTwo_def split: prod.splits)

lemma confidenceOf_range:
  "0 \<le> sec \<Longrightarrow> sec \<le> m \<Longrightarrow> 0 \<le> confidenceOf m sec \<and> confidenceOf m sec \<le> 1"
  by (auto simp: confidenceOf_def divide_le_eq_1)

lemma findTopTwo_all_zero:
  "\<forall>i. scores i = 0 \<Longrightarrow> findTopTwo order scores = (0, 0, IntentGeneral)"
  unfolding findTopTwo_def by (induction order) simp_all

section \<open>The claims about the classifier\<close>

lemma adjustedScores_Visualization:
  "\<not> containsAny (ToLower query) (intentPrototypes IntentVisualization) \<Longrightarrow>
   adjustedScores query IntentVisualization = 0"
  by (simp add: adjustedScores_def Let_def heuristics_Visualization keywordScore_zero)

lemma adjustedScores_General:
  "\<not> containsAny (ToLower query) (intentPrototypes IntentGeneral) \<Longrightarrow>
   adjustedScores query IntentGeneral = 0"
  by (simp add: adjustedScores_def Let_def heuristics_General keywordScore_zero)

lemma adjustedScores_SQL_none:
  "\<not> containsAny (ToLower query) (intentPrototypes IntentSQLQuery) \<Longrightarrow>
   \<not> Contains (ToLower query) ''schema'' \<Longrightarrow> \<not> Contains (ToLower query) ''column'' \<Longrightarrow>
   adjustedScores query IntentSQLQuery = 0"
  by (simp add: adjustedScores_def Let_def heuristics_SQL_none keywordScore_zero)





text \<open>
  C5, as the code has it. For any two iteration orders the confidence returned by
  \<open>ClassifyWithConfidence\<close> is the same, and when the maximum adjusted score is attained
  by one intent only, or is below the threshold 0.1, \<open>Classify\<close> returns the same intent
  and \<open>ClassifyWithConfidence\<close> the same pair under both orders.
\<close>

theorem C5_order_independence:
  assumes "order1 \<in> set iterationOrders" and "order2 \<in> set iterationOrders"
  shows "snd (ClassifyWithConfidence order1 query) = snd (ClassifyWithConfidence order2 query)
   \<and> (\<not> tiedAtTop (adjustedScores query) \<or> maxScoreOf (adjustedScores query) < 1/10 \<longrightarrow>
        Classify order1 query = Classify order2 query \<and>
        ClassifyWithConfidence order1 query = ClassifyWithConfidence order2 query)"
proof -
  let ?s = "adjustedScores query"
  define M where "M = max 0 (maxScoreOf ?s)"
  define sec where "sec = fst (snd (findTopTwo order1 ?s))"
  have m: "fst (findBest order1 ?s) = M" "fst (findBest order2 ?s) = M"
    using assms by (simp_all add: findBest_max M_def)
  have sec: "fst (snd (findTopTwo order1 ?s)) = sec" "fst (snd (findTopTwo order2 ?s)) = sec"
    using assms by (simp_all add: findTopTwo_second sec_def)
  have c: "Classify order1 query = (if M < 1/10 then IntentGeneral else snd (findBest order1 ?s))"
    "Classify order2 query = (if M < 1/10 then IntentGeneral else snd (findBest order2 ?s))"
    by (simp_all add: Classify_findBest m)
  have w: "ClassifyWithConfidence order1 query =
        (if M < 1/10 then (IntentGeneral, 0) else (snd (findBest order1 ?s), confidenceOf M sec))"
    "ClassifyWithConfidence order2 query =
        (if M < 1/10 then (IntentGeneral, 0) else (snd (findBest order2 ?s), confidenceOf M sec))"
    by (simp_all add: ClassifyWithConfidence_findTopTwo Let_def findTopTwo_findBest m sec)
  have conf: "snd (ClassifyWithConfidence order1 query) = snd (ClassifyWithConfidence order2 query)"
    unfolding w by simp
  have best: "snd (findBest order1 ?s) = snd (findBest order2 ?s)"
    if u: "\<not> tiedAtTop ?s" and big: "\<not> M < 1/10"
  proof -
    have p: "0 < M" using big by linarith
    then have e: "M = maxScoreOf ?s" unfolding M_def by (simp add: max_def split: if_splits)
    have "?s (snd (findBest order1 ?s)) = maxScoreOf ?s"
      using findBest_attained [of order1 ?s] p m(1) e by simp
    moreover have "?s (snd (findBest order2 ?s)) = maxScoreOf ?s"
      using findBest_attained [of order2 ?s] p m(2) e by simp
    ultimately show ?thesis using u untied_unique by blast
  qed
  have small: "M < 1/10" if "maxScoreOf ?s < 1/10"
    using that unfolding M_def by (simp add: max_def)
  have "Classify order1 query = Classify order2 query \<and>
        ClassifyWithConfidence order1 query = ClassifyWithConfidence order2 query"
    if "\<not> tiedAtTop ?s \<or> maxScoreOf ?s < 1/10"
  proof (cases "M < 1/10")
    case True
    then show ?thesis unfolding c w by simp
  next
    case False
    then have "\<not> tiedAtTop ?s" using that small by blast
    then have "snd (findBest order1 ?s) = snd (findBest order2 ?s)" using False by (rule best)
    then show ?thesis unfolding c w by simp
  qed
  with conf show ?thesis by blast
qed

theorem C5_order_independence_witness:
  "[IntentSQLQuery, IntentVisualization, IntentGeneral] \<in> set iterationOrders
   \<and> [IntentGeneral, IntentVisualization, IntentSQLQuery] \<in> set iterationOrders
   \<and> \<not> tiedAtTop (adjustedScores ''Show me all tables in the database'')
   \<and> Classify [IntentSQLQuery, IntentVisualization, IntentGeneral]
        ''Show me all tables in the database''
     = Classify [IntentGeneral, IntentVisualization, IntentSQLQuery]
        ''Show me all tables in the database''
   \<and> ClassifyWithConfidence [IntentSQLQuery, IntentVisualization, IntentGeneral]
        ''Show me all tables in the database''
     = ClassifyWithConfidence [IntentGeneral, IntentVisualization, IntentSQLQuery]
        ''Show me all tables in the database''"
proof -
  have h1: "[IntentSQLQuery, IntentVisualization, IntentGeneral] \<in> set iterationOrders"
    by (simp add: iterationOrders_def)
  have h2: "[IntentGeneral, IntentVisualization, IntentSQLQuery] \<in> set iterationOrders"
    by (simp add: iterationOrders_def)
  have h3: "\<not> tiedAtTop (adjustedScores ''Show me all tables in the database'')"
    by code_simp
  show ?thesis
    using h1 h2 h3 C5_order_independence [OF h1 h2, of "''Show me all tables in the database''"]
    by blast
qed

text \<open>
  The claim C5 as it is written fails where two intents tie for the maximum: for
  "help how schema" SQLQuery and General both score 1/2, and the intent returned is the
  one the loop meets first.
\<close>

theorem C5_counterexample:
  "Classify [IntentSQLQuery, IntentVisualization, IntentGeneral] ''help how schema''
     = IntentSQLQuery
   \<and> Classify [IntentGeneral, IntentVisualization, IntentSQLQuery] ''help how schema''
     = IntentGeneral
   \<and> ClassifyWithConfidence [IntentSQLQuery, IntentVisualization, IntentGeneral] ''help how schema''
     = (IntentSQLQuery, 0)
   \<and> ClassifyWithConfidence [IntentGeneral, IntentVisualization, IntentSQLQuery] ''help how schema''
     = (IntentGeneral, 0)"
  by code_simp

text \<open>
  C6, as the code has it. For every query and every order of the loop the confidence is
  in the closed interval from 0 to 1; and when the lower-cased query contains no keyword
  of the three vocabularies and neither "schema" nor "column" (the two cue words of
  \<open>applyHeuristics\<close> that are in no vocabulary), the result is General with confidence 0.
\<close>

theorem C6_confidence:
  "0 \<le> snd (ClassifyWithConfidence order query)
   \<and> snd (ClassifyWithConfidence order query) \<le> 1
   \<and> (\<not> containsAny (ToLower query) (intentPrototypes IntentSQLQuery) \<and>
       \<not> containsAny (ToLower query) (intentPrototypes IntentVisualization) \<and>
       \<not> containsAny (ToLower query) (intentPrototypes IntentGeneral) \<and>
       \<not> Contains (ToLower query) ''schema'' \<and> \<not> Contains (ToLower query) ''column''
       \<longrightarrow> ClassifyWithConfidence order query = (IntentGeneral, 0))"
proof -
  let ?s = "adjustedScores query"
  let ?r = "findTopTwo order ?s"
  have "0 \<le> confidenceOf (fst ?r) (fst (snd ?r)) \<and> confidenceOf (fst ?r) (fst (snd ?r)) \<le> 1"
    using findTopTwo_bounds [of order ?s] by (intro confidenceOf_range) simp_all
  then have range: "0 \<le> snd (ClassifyWithConfidence order query) \<and>
                    snd (ClassifyWithConfidence order query) \<le> 1"
    by (simp add: ClassifyWithConfidence_findTopTwo Let_def)
  have "ClassifyWithConfidence order query = (IntentGeneral, 0)"
    if h: "\<not> containsAny (ToLower query) (intentPrototypes IntentSQLQuery) \<and>
       \<not> containsAny (ToLower query) (intentPrototypes IntentVisualization) \<and>
       \<not> containsAny (ToLower query) (intentPrototypes IntentGeneral) \<and>
       \<not> Contains (ToLower query) ''schema'' \<and> \<not> Contains (ToLower query) ''column''"
  proof -
    have "?s i = 0" for i
      using h adjustedScores_SQL_none [of query] adjustedScores_Visualization [of query]
        adjustedScores_General [of query]
      by (cases i) simp_all
    then have "?r = (0, 0, IntentGeneral)" by (simp add: findTopTwo_all_zero)
    then show ?thesis by (simp add: ClassifyWithConfidence_findTopTwo)
  qed
  with range show ?thesis by blast
qed

theorem C6_confidence_witness:
  "\<not> containsAny (ToLower ''Hello there'') (intentPrototypes IntentSQLQuery)
   \<and> \<not> containsAny (ToLower ''Hello there'') (intentPrototypes IntentVisualization)
   \<and> \<not> containsAny (ToLower ''Hello there'') (intentPrototypes IntentGeneral)
   \<and> \<not> Contains (ToLower ''Hello there'') ''schema''
   \<and> \<not> Contains (ToLower ''Hello there'') ''column''
   \<and> ClassifyWithConfidence [IntentVisualization, IntentSQLQuery, IntentGeneral] ''Hello there''
       = (IntentGeneral, 0)"
proof -
  have h: "\<not> containsAny (ToLower ''Hello there'') (intentPrototypes IntentSQLQuery)
   \<and> \<not> containsAny (ToLower ''Hello there'') (intentPrototypes IntentVisualization)
   \<and> \<not> containsAny (ToLower ''Hello there'') (intentPrototypes IntentGeneral)
   \<and> \<not> Contains (ToLower ''Hello there'') ''schema''
   \<and> \<not> Contains (ToLower ''Hello there'') ''column''"
    by code_simp
  show ?thesis
    using h C6_confidence [of "[IntentVisualization, IntentSQLQuery, IntentGeneral]" "''Hello there''"]
    by blast
qed

text \<open>
  The claim C6 as it is written fails: "schema" contains no keyword of any vocabulary,
  yet the heuristic for database structure gives SQLQuery the score 1/2, and the result
  is SQLQuery with confidence 1/2.
\<close>

theorem C6_counterexample:
  "\<not> containsAny (ToLower ''schema'') (intentPrototypes IntentSQLQuery)
   \<and> \<not> containsAny (ToLower ''schema'') (intentPrototypes IntentVisualization)
   \<and> \<not> containsAny (ToLower ''schema'') (intentPrototypes IntentGeneral)
   \<and> ClassifyWithConfidence [IntentSQLQuery, IntentVisualization, IntentGeneral] ''schema''
       = (IntentSQLQuery, 1/2)"
  by code_simp

end
